theory Spec2Isabelle
  imports Complex_Main "HOL-Library.Multiset"
begin

section \<open>Data model\<close>

text \<open>
  The tables of \<^verbatim>\<open>src/server.js\<close> (second snapshot, lines 360-433), one record per
  Sequelize model. Only the columns that the cart and identity handlers read or
  write are kept for a tour; the primary keys are the auto-increment integers
  Sequelize declares. The store holds a price as the real number that the
  column's double stands for, and a quantity as an integer; the arithmetic of
  the handlers on them is that of JavaScript numbers, defined below.
\<close>

record user =
  user_id :: nat
  username :: string
  password :: string
  role :: string

record tour =
  tour_id :: nat
  tour_name :: string
  price :: real
  duration :: int

record cart =
  cart_id :: nat
  UserId :: nat

record cart_item =
  item_id :: nat
  quantity :: int
  CartId :: nat
  TourId :: nat

text \<open>
  The store: the four tables in insertion order, and for each auto-increment key
  the largest key handed out so far (SQLite's sequence table).
\<close>

record db =
  users :: "user list"
  tours :: "tour list"
  carts :: "cart list"
  cart_items :: "cart_item list"
  users_seq :: nat
  carts_seq :: nat
  cart_items_seq :: nat

text \<open>
  What the storage layer enforces beyond the handlers' own logic is not written
  in the handlers: whether foreign keys are checked on insert, and whether the
  join table of \<^verbatim>\<open>Cart.belongsToMany(Tour, { through: CartItem })\<close> carries a
  composite unique key on (CartId, TourId). Both are parameters. Sequelize on
  SQLite, as the source sets it up (lines 355-358, 430-433), checks foreign
  keys and gives the join table the unique key: the setting \<open>enforcing\<close>
  below. A theorem that does not name a setting holds for every one. The
  unique key on \<^verbatim>\<open>User.username\<close> is declared in the source
  (\<^verbatim>\<open>unique: true\<close>) and is always enforced.
\<close>

record storage =
  foreignKeys :: bool
  throughUnique :: bool

datatype exn = UniqueConstraintError | ForeignKeyConstraintError

section \<open>JavaScript numbers\<close>

text \<open>
  A JavaScript number is an IEEE 754 double: a real number that a double
  represents, an infinity, or NaN (the sign of zero is not modelled). The
  result of an addition or a multiplication of two finite numbers is the exact
  result rounded to the nearest double, ties to the even significand:
  \<open>to_double\<close>. A double has a significand of 53 bits, so the doubles around
  \<open>x\<close> are the multiples of two to the power \<open>quantum_exp x\<close>; the exponent is
  at least -1022 (below it the doubles are subnormal), and a result that
  rounds to two to the power 1024 or beyond is an infinity.
\<close>

datatype number = Num real | PosInf | NegInf | NaN

definition round_even :: "real \<Rightarrow> int" where
  "round_even y =
     (let f = \<lfloor>y\<rfloor> in
      if y - of_int f < 1 / 2 then f
      else if 1 / 2 < y - of_int f then f + 1
      else if even f then f else f + 1)"

definition quantum_exp :: "real \<Rightarrow> int" where
  "quantum_exp x = max \<lfloor>log 2 \<bar>x\<bar>\<rfloor> (- 1022) - 52"

definition overflow_threshold :: real where
  "overflow_threshold = 2 powi 1024"

definition to_double :: "real \<Rightarrow> number" where
  "to_double x =
     (if x = 0 then Num 0
      else
        let r = of_int (round_even (x / 2 powi quantum_exp x)) * 2 powi quantum_exp x
        in if overflow_threshold \<le> \<bar>r\<bar> then (if 0 < x then PosInf else NegInf)
           else Num r)"

text \<open>The operators \<^verbatim>\<open>+\<close> and \<^verbatim>\<open>*\<close> on numbers.\<close>

fun js_add :: "number \<Rightarrow> number \<Rightarrow> number" where
  "js_add (Num a) (Num b) = to_double (a + b)"
| "js_add NaN y = NaN"
| "js_add x NaN = NaN"
| "js_add PosInf NegInf = NaN"
| "js_add NegInf PosInf = NaN"
| "js_add PosInf y = PosInf"
| "js_add x PosInf = PosInf"
| "js_add NegInf y = NegInf"
| "js_add x NegInf = NegInf"

fun js_mul :: "number \<Rightarrow> number \<Rightarrow> number" where
  "js_mul (Num a) (Num b) = to_double (a * b)"
| "js_mul NaN y = NaN"
| "js_mul x NaN = NaN"
| "js_mul (Num a) PosInf = (if a = 0 then NaN else if 0 < a then PosInf else NegInf)"
| "js_mul (Num a) NegInf = (if a = 0 then NaN else if 0 < a then NegInf else PosInf)"
| "js_mul PosInf (Num b) = (if b = 0 then NaN else if 0 < b then PosInf else NegInf)"
| "js_mul NegInf (Num b) = (if b = 0 then NaN else if 0 < b then NegInf else PosInf)"
| "js_mul PosInf PosInf = PosInf"
| "js_mul NegInf NegInf = PosInf"
| "js_mul PosInf NegInf = NegInf"
| "js_mul NegInf PosInf = NegInf"

text \<open>
  The number that a handler reads from an INTEGER column, and the quantity
  that \<^verbatim>\<open>cartItem.quantity + 1\<close> writes back into it. The sum is an integer;
  it is not finite only for a quantity beyond two to the power 1023, which the
  column, of 64 bits, does not hold: the model leaves such a row as it is.
\<close>

definition to_number :: "int \<Rightarrow> number" where
  "to_number q = to_double (of_int q)"

definition quantity_plus_1 :: "int \<Rightarrow> int" where
  "quantity_plus_1 q =
     (case js_add (to_number q) (Num 1) of Num r \<Rightarrow> \<lfloor>r\<rfloor> | _ \<Rightarrow> q)"

text \<open>
  The session of a request: \<^verbatim>\<open>req.session.user\<close> is absent or the object
  that \<^verbatim>\<open>/login\<close> stored.
\<close>

record session_user =
  sess_id :: nat
  sess_username :: string
  sess_role :: string

text \<open>
  The messages of the handlers (the source has them in Russian), by the line
  that sends them: \<open>Tour_added\<close> 560, \<open>Cart_add_failed\<close> 563,
  \<open>Tour_removed\<close> 571, \<open>Cart_remove_failed\<close> 574, \<open>Cart_load_failed\<close> 533,
  \<open>Wrong_current_password\<close> 614, \<open>Profile_update_failed\<close> 626,
  \<open>Credentials_required\<close> 730, \<open>Registration_failed\<close> 737,
  \<open>Bad_credentials\<close> 752, \<open>Login_failed\<close> 759. The storage operations below
  raise the two constraint errors only; a \<^verbatim>\<open>catch\<close> that nothing but another
  failure of the storage layer can reach (lines 533, 574) has no branch in the
  handlers below.
\<close>

datatype message =
    Tour_added | Cart_add_failed | Tour_removed | Cart_remove_failed
  | Cart_load_failed | Wrong_current_password | Profile_update_failed
  | Credentials_required | Registration_failed | Bad_credentials | Login_failed

datatype page =
    Cart_page "(tour \<times> int) list" number
  | Login_page message
  | Register_page message
  | Profile_page "user option" message
  | Error_page message

datatype response =
    is_Redirect: Redirect string
  | is_Json: Json nat bool message
  | is_Render: Render nat page

section \<open>Storage operations\<close>

text \<open>
  An auto-increment key is one more than the largest key that ever existed in
  the table.
\<close>

definition next_id :: "nat \<Rightarrow> nat list \<Rightarrow> nat" where
  "next_id seq ids = Suc (fold max ids seq)"

definition Tour_findByPk :: "db \<Rightarrow> nat \<Rightarrow> tour option" where
  "Tour_findByPk d tid = find (\<lambda>t. tour_id t = tid) (tours d)"

definition Cart_findOne :: "db \<Rightarrow> nat \<Rightarrow> cart option" where
  "Cart_findOne d uid = find (\<lambda>c. UserId c = uid) (carts d)"

definition Cart_create :: "storage \<Rightarrow> db \<Rightarrow> nat \<Rightarrow> exn + db \<times> cart" where
  "Cart_create st d uid =
     (if foreignKeys st \<and> uid \<notin> set (map user_id (users d))
      then Inl ForeignKeyConstraintError
      else
        let c = \<lparr>cart_id = next_id (carts_seq d) (map cart_id (carts d)), UserId = uid\<rparr>
        in Inr (d\<lparr>carts := carts d @ [c], carts_seq := cart_id c\<rparr>, c))"

definition CartItem_findOne :: "db \<Rightarrow> nat \<Rightarrow> nat \<Rightarrow> cart_item option" where
  "CartItem_findOne d cid tid =
     find (\<lambda>i. CartId i = cid \<and> TourId i = tid) (cart_items d)"

text \<open>\<^verbatim>\<open>cartItem.update({ quantity })\<close>: an UPDATE of the row with the instance's key.\<close>

definition CartItem_update :: "db \<Rightarrow> cart_item \<Rightarrow> int \<Rightarrow> db" where
  "CartItem_update d item q =
     d\<lparr>cart_items :=
         map (\<lambda>i. if item_id i = item_id item then i\<lparr>quantity := q\<rparr> else i) (cart_items d)\<rparr>"

text \<open>
  \<^verbatim>\<open>CartItem.create({ CartId, TourId })\<close>: the quantity is the column's default, 1.
\<close>

definition CartItem_create :: "storage \<Rightarrow> db \<Rightarrow> nat \<Rightarrow> nat \<Rightarrow> exn + db" where
  "CartItem_create st d cid tid =
     (if foreignKeys st \<and>
         (cid \<notin> set (map cart_id (carts d)) \<or> tid \<notin> set (map tour_id (tours d)))
      then Inl ForeignKeyConstraintError
      else if throughUnique st \<and> CartItem_findOne d cid tid \<noteq> None
      then Inl UniqueConstraintError
      else
        let k = next_id (cart_items_seq d) (map item_id (cart_items d))
        in Inr (d\<lparr>cart_items :=
                     cart_items d @ [\<lparr>item_id = k, quantity = 1, CartId = cid, TourId = tid\<rparr>],
                   cart_items_seq := k\<rparr>))"

definition CartItem_destroy :: "db \<Rightarrow> nat \<Rightarrow> db" where
  "CartItem_destroy d iid = d\<lparr>cart_items := filter (\<lambda>i. item_id i \<noteq> iid) (cart_items d)\<rparr>"

text \<open>
  \<^verbatim>\<open>cart.Tours\<close> of the \<^verbatim>\<open>include\<close> at lines 507-514: the cart's lines joined
  with their tours, each tour carrying its line's quantity. A line whose tour
  is not in the catalog has no row in the join. The query asks for no order;
  the rows are taken here in the order of the join table, and what is proved
  of an exact total holds for the rows in any order.
\<close>

definition Cart_Tours :: "db \<Rightarrow> cart \<Rightarrow> (tour \<times> int) list" where
  "Cart_Tours d c =
     List.map_filter (\<lambda>i. map_option (\<lambda>t. (t, quantity i)) (Tour_findByPk d (TourId i)))
       (filter (\<lambda>i. CartId i = cart_id c) (cart_items d))"

section \<open>The authentication gate and the cart handlers\<close>

text \<open>\<^verbatim>\<open>requireAuth\<close>, lines 459-464: no session user, redirect to the login page.\<close>

definition requireAuth :: "session_user option \<Rightarrow> response + session_user" where
  "requireAuth sess = (case sess of None \<Rightarrow> Inl (Redirect ''/login'') | Some su \<Rightarrow> Inr su)"

text \<open>
  \<^verbatim>\<open>app.get('/cart')\<close>, lines 505-537. \<open>cart_total\<close> is the \<^verbatim>\<open>reduce\<close> of
  line 521: from 0, left to right, each step a multiplication and an addition
  of numbers.
\<close>

definition cart_total :: "(tour \<times> int) list \<Rightarrow> number" where
  "cart_total items =
     foldl (\<lambda>sum t. js_add sum (js_mul (to_double (price (fst t))) (to_number (snd t))))
       (Num 0) items"

definition cart_get :: "db \<Rightarrow> session_user option \<Rightarrow> response" where
  "cart_get d sess =
     (case requireAuth sess of
        Inl r \<Rightarrow> r
      | Inr su \<Rightarrow>
          (case Cart_findOne d (sess_id su) of
             None \<Rightarrow> Render 200 (Cart_page [] (Num 0))
           | Some c \<Rightarrow> Render 200 (Cart_page (Cart_Tours d c) (cart_total (Cart_Tours d c)))))"

text \<open>
  \<^verbatim>\<open>app.post('/cart/add/:tourId')\<close>, lines 539-565. \<open>cart_add_line\<close> is the second
  half of the handler, from the lookup of the line on; an exception of the
  storage layer ends in the handler's \<^verbatim>\<open>catch\<close>, which answers the failure
  payload with status 500 and rolls nothing back.
\<close>

definition cart_add_line :: "storage \<Rightarrow> db \<Rightarrow> cart \<Rightarrow> nat \<Rightarrow> db \<times> response" where
  "cart_add_line st d c tourId =
     (case CartItem_findOne d (cart_id c) tourId of
        Some cartItem \<Rightarrow>
          (CartItem_update d cartItem (quantity_plus_1 (quantity cartItem)),
           Json 200 True Tour_added)
      | None \<Rightarrow>
          (case CartItem_create st d (cart_id c) tourId of
             Inl e \<Rightarrow> (d, Json 500 False Cart_add_failed)
           | Inr d' \<Rightarrow> (d', Json 200 True Tour_added)))"

definition cart_add :: "storage \<Rightarrow> db \<Rightarrow> session_user option \<Rightarrow> nat \<Rightarrow> db \<times> response" where
  "cart_add st d sess tourId =
     (case requireAuth sess of
        Inl r \<Rightarrow> (d, r)
      | Inr su \<Rightarrow>
          (case Cart_findOne d (sess_id su) of
             Some c \<Rightarrow> cart_add_line st d c tourId
           | None \<Rightarrow>
               (case Cart_create st d (sess_id su) of
                  Inl e \<Rightarrow> (d, Json 500 False Cart_add_failed)
                | Inr (d', c) \<Rightarrow> cart_add_line st d' c tourId)))"

text \<open>\<^verbatim>\<open>app.post('/cart/remove/:itemId')\<close>, lines 567-576.\<close>

definition cart_remove :: "db \<Rightarrow> session_user option \<Rightarrow> nat \<Rightarrow> db \<times> response" where
  "cart_remove d sess itemId =
     (case requireAuth sess of
        Inl r \<Rightarrow> (d, r)
      | Inr su \<Rightarrow> (CartItem_destroy d itemId, Json 200 True Tour_removed))"

section \<open>The (user, tour) state machine of the cart\<close>

text \<open>
  The lines of a (cart, tour) pair, and the two states in which a (user, tour)
  pair can be: \<open>absent\<close>, no line of the user's cart for the tour, and
  \<open>present q\<close>, exactly one such line, with quantity \<open>q\<close>. The user's cart is
  the one that \<open>Cart_findOne\<close> returns.
\<close>

definition cart_lines :: "db \<Rightarrow> nat \<Rightarrow> nat \<Rightarrow> cart_item list" where
  "cart_lines d cid tid = filter (\<lambda>i. CartId i = cid \<and> TourId i = tid) (cart_items d)"

definition absent :: "db \<Rightarrow> nat \<Rightarrow> nat \<Rightarrow> bool" where
  "absent d uid tid =
     (case Cart_findOne d uid of None \<Rightarrow> True | Some c \<Rightarrow> cart_lines d (cart_id c) tid = [])"

definition present :: "db \<Rightarrow> nat \<Rightarrow> nat \<Rightarrow> int \<Rightarrow> bool" where
  "present d uid tid q =
     (case Cart_findOne d uid of
        None \<Rightarrow> False
      | Some c \<Rightarrow> map quantity (cart_lines d (cart_id c) tid) = [q])"

text \<open>Referential integrity of the join table towards the carts.\<close>

definition lines_reference_carts :: "db \<Rightarrow> bool" where
  "lines_reference_carts d =
     list_all (\<lambda>i. CartId i \<in> set (map cart_id (carts d))) (cart_items d)"

definition user_exists :: "db \<Rightarrow> nat \<Rightarrow> bool" where
  "user_exists d uid = (uid \<in> set (map user_id (users d)))"

definition tour_exists :: "db \<Rightarrow> nat \<Rightarrow> bool" where
  "tour_exists d tid = (tid \<in> set (map tour_id (tours d)))"

text \<open>
  Referential integrity of the join table towards the tours, and its unique
  key: no two lines of one cart for one tour.
\<close>

definition lines_reference_tours :: "db \<Rightarrow> bool" where
  "lines_reference_tours d = list_all (\<lambda>i. tour_exists d (TourId i)) (cart_items d)"

definition unique_lines :: "db \<Rightarrow> bool" where
  "unique_lines d = distinct (map (\<lambda>i. (CartId i, TourId i)) (cart_items d))"


section \<open>Requests in flight\<close>












section \<open>Identity\<close>

text \<open>
  \<^verbatim>\<open>bcrypt.hash(data, 10)\<close> draws a salt and hashes; \<^verbatim>\<open>bcrypt.compare(data, hash)\<close>
  checks a password against a stored hash. Both are parameters, with the salt
  of a call as an argument, and nothing is assumed about them. The fields of a
  request body are the strings of the submitted form, the password of a login
  apart; a string is truthy when it is not empty.
\<close>

record bcrypt =
  bcrypt_hash :: "string \<Rightarrow> string \<Rightarrow> string"
  bcrypt_compare :: "string \<Rightarrow> string \<Rightarrow> bool"

definition User_findOne :: "db \<Rightarrow> string \<Rightarrow> user option" where
  "User_findOne d name = find (\<lambda>u. username u = name) (users d)"

definition User_findByPk :: "db \<Rightarrow> nat \<Rightarrow> user option" where
  "User_findByPk d k = find (\<lambda>u. user_id u = k) (users d)"

text \<open>\<^verbatim>\<open>User.beforeCreate\<close>, lines 410-415.\<close>

definition beforeCreate :: "bcrypt \<Rightarrow> string \<Rightarrow> user \<Rightarrow> user" where
  "beforeCreate bc salt u =
     (if password u \<noteq> [] then u\<lparr>password := bcrypt_hash bc (password u) salt\<rparr> else u)"

text \<open>
  \<^verbatim>\<open>User.beforeUpdate\<close>, lines 417-421. \<^verbatim>\<open>user.changed('password')\<close> holds when
  the value set on the instance differs from the one it was loaded with.
\<close>

definition beforeUpdate :: "bcrypt \<Rightarrow> string \<Rightarrow> user \<Rightarrow> user \<Rightarrow> user" where
  "beforeUpdate bc salt loaded u =
     (if password u \<noteq> password loaded
      then u\<lparr>password := bcrypt_hash bc (password u) salt\<rparr> else u)"

text \<open>
  \<^verbatim>\<open>User.create({ username, password })\<close>: the role is the column's default, the
  hook runs on the instance, then the row is inserted unless the username is
  taken.
\<close>

definition User_create :: "bcrypt \<Rightarrow> string \<Rightarrow> db \<Rightarrow> string \<Rightarrow> string \<Rightarrow> exn + db" where
  "User_create bc salt d name pw =
     (let u = beforeCreate bc salt
                \<lparr>user_id = next_id (users_seq d) (map user_id (users d)),
                 username = name, password = pw, role = ''client''\<rparr>
      in if username u \<in> set (map username (users d)) then Inl UniqueConstraintError
         else Inr (d\<lparr>users := users d @ [u], users_seq := user_id u\<rparr>))"

text \<open>
  \<^verbatim>\<open>user.update(updateData)\<close> on a loaded instance: the values are set on the
  instance, the hook runs, and the columns whose value was changed by the set
  are written to the row with the instance's key. \<open>pw\<close> is \<open>None\<close> when
  \<^verbatim>\<open>updateData\<close> has no password.
\<close>

definition user_update ::
  "bcrypt \<Rightarrow> string \<Rightarrow> db \<Rightarrow> user \<Rightarrow> string \<Rightarrow> string option \<Rightarrow> exn + db" where
  "user_update bc salt d loaded name pw =
     (let inst = loaded\<lparr>username := name,
                       password := (case pw of None \<Rightarrow> password loaded | Some p \<Rightarrow> p)\<rparr>;
          u = beforeUpdate bc salt loaded inst
      in if username inst \<noteq> username loaded \<and> username u \<in> set (map username (users d))
         then Inl UniqueConstraintError
         else Inr (d\<lparr>users :=
                      map (\<lambda>r. if user_id r = user_id loaded
                                then r\<lparr>username :=
                                         (if username inst \<noteq> username loaded
                                          then username u else username r),
                                       password :=
                                         (if password inst \<noteq> password loaded
                                          then password u else password r)\<rparr>
                                else r)
                        (users d)\<rparr>))"

text \<open>\<^verbatim>\<open>app.post('/register')\<close>, lines 722-741.\<close>

definition register :: "bcrypt \<Rightarrow> string \<Rightarrow> db \<Rightarrow> string \<Rightarrow> string \<Rightarrow> db \<times> response" where
  "register bc salt d name pw =
     (if name \<noteq> [] \<and> pw \<noteq> [] then
        (case User_create bc salt d name pw of
           Inl e \<Rightarrow> (d, Render 500 (Error_page Registration_failed))
         | Inr d' \<Rightarrow> (d', Redirect ''/login''))
      else (d, Render 400 (Register_page Credentials_required)))"

text \<open>
  \<^verbatim>\<open>app.post('/login')\<close>, lines 743-763: the result is the session user after
  the request and the response. The password of the body is \<open>None\<close> when the
  request has no such field or the field is not a string; \<^verbatim>\<open>bcrypt.compare\<close>
  then rejects, and the handler's \<^verbatim>\<open>catch\<close> (lines 756-762) answers status
  500. It is called only when a user was found: \<^verbatim>\<open>user && ...\<close>.
\<close>

definition login ::
  "bcrypt \<Rightarrow> db \<Rightarrow> session_user option \<Rightarrow> string \<Rightarrow> string option
     \<Rightarrow> session_user option \<times> response" where
  "login bc d sess name pw =
     (case User_findOne d name of
        Some u \<Rightarrow>
          (case pw of
             None \<Rightarrow> (sess, Render 500 (Error_page Login_failed))
           | Some p \<Rightarrow>
               if bcrypt_compare bc p (password u)
               then (Some \<lparr>sess_id = user_id u, sess_username = username u,
                            sess_role = role u\<rparr>,
                     Redirect ''/'')
               else (sess, Render 400 (Login_page Bad_credentials)))
      | None \<Rightarrow> (sess, Render 400 (Login_page Bad_credentials)))"

text \<open>
  \<^verbatim>\<open>app.post('/profile/update')\<close>, lines 603-630. When no user has the session's
  id, \<^verbatim>\<open>user\<close> is null: reading \<^verbatim>\<open>user.password\<close> or calling \<^verbatim>\<open>user.update\<close>
  throws, which the \<^verbatim>\<open>catch\<close> answers with status 500.
\<close>

definition profile_update ::
  "bcrypt \<Rightarrow> string \<Rightarrow> db \<Rightarrow> session_user option \<Rightarrow> string \<Rightarrow> string \<Rightarrow> string
     \<Rightarrow> db \<times> response" where
  "profile_update bc salt d sess name currentPassword newPassword =
     (case requireAuth sess of
        Inl r \<Rightarrow> (d, r)
      | Inr su \<Rightarrow>
          (case User_findByPk d (sess_id su) of
             None \<Rightarrow>
               if newPassword \<noteq> [] \<and> currentPassword = []
               then (d, Render 400 (Profile_page None Wrong_current_password))
               else (d, Render 500 (Error_page Profile_update_failed))
           | Some u \<Rightarrow>
               if newPassword \<noteq> [] then
                 if currentPassword = [] \<or> \<not> bcrypt_compare bc currentPassword (password u)
                 then (d, Render 400 (Profile_page (Some u) Wrong_current_password))
                 else
                   (case user_update bc salt d u name (Some newPassword) of
                      Inl e \<Rightarrow> (d, Render 500 (Error_page Profile_update_failed))
                    | Inr d' \<Rightarrow> (d', Redirect ''/profile''))
               else
                 (case user_update bc salt d u name None of
                    Inl e \<Rightarrow> (d, Render 500 (Error_page Profile_update_failed))
                  | Inr d' \<Rightarrow> (d', Redirect ''/profile''))))"

section \<open>A small store\<close>

text \<open>
  Two users and three tours; the first user has a cart with two lines (price
  100, quantity 2 and price 50, quantity 1), the second user has no cart.
\<close>

definition shop :: db where
  "shop =
     \<lparr>users =
        [\<lparr>user_id = 1, username = ''admin'', password = ''h:adminpass'', role = ''admin''\<rparr>,
         \<lparr>user_id = 2, username = ''client'', password = ''h:clientpass'', role = ''client''\<rparr>],
      tours =
        [\<lparr>tour_id = 1, tour_name = ''A'', price = 100, duration = 3\<rparr>,
         \<lparr>tour_id = 2, tour_name = ''B'', price = 50, duration = 7\<rparr>,
         \<lparr>tour_id = 3, tour_name = ''C'', price = 70, duration = 5\<rparr>],
      carts = [\<lparr>cart_id = 1, UserId = 1\<rparr>],
      cart_items =
        [\<lparr>item_id = 1, quantity = 2, CartId = 1, TourId = 1\<rparr>,
         \<lparr>item_id = 2, quantity = 1, CartId = 1, TourId = 2\<rparr>],
      users_seq = 2, carts_seq = 1, cart_items_seq = 2\<rparr>"

definition admin_session :: session_user where
  "admin_session = \<lparr>sess_id = 1, sess_username = ''admin'', sess_role = ''admin''\<rparr>"

definition client_session :: session_user where
  "client_session = \<lparr>sess_id = 2, sess_username = ''client'', sess_role = ''client''\<rparr>"

text \<open>A stand-in for bcrypt with which the handlers can be run on \<open>shop\<close>.\<close>

definition plain_bcrypt :: bcrypt where
  "plain_bcrypt =
     \<lparr>bcrypt_hash = (\<lambda>data salt. ''h:'' @ data),
      bcrypt_compare = (\<lambda>data h. h = ''h:'' @ data)\<rparr>"

text \<open>
  The double nearest to one tenth, and a store in which the first user's cart
  holds three of a tour at that price.
\<close>

definition tenth :: real where
  "tenth = 3602879701896397 / 2 ^ 55"

definition tenth_shop :: db where
  "tenth_shop =
     shop\<lparr>tours := [\<lparr>tour_id = 1, tour_name = ''A'', price = tenth, duration = 3\<rparr>],
          cart_items := [\<lparr>item_id = 1, quantity = 3, CartId = 1, TourId = 1\<rparr>],
          cart_items_seq := 1\<rparr>"

definition enforcing :: storage where
  "enforcing = \<lparr>foreignKeys = True, throughUnique = True\<rparr>"

definition permissive :: storage where
  "permissive = \<lparr>foreignKeys = False, throughUnique = False\<rparr>"

section \<open>Properties of the numbers\<close>

lemma round_even_of_int: "round_even (of_int k) = k"
  by (simp add: round_even_def)

lemma floor_log2_eq:
  assumes "2 powi e \<le> x" and "x < 2 powi (e + 1)"
  shows "\<lfloor>log 2 x\<rfloor> = e"
proof -
  have pos: "0 < x"
    using assms(1) by (smt (verit) zero_less_power_int)
  have a: "2 powr (real_of_int e) = (2::real) powi e"
    by (simp add: powr_real_of_int')
  have b: "2 powr (real_of_int e + 1) = (2::real) powi (e + 1)"
    using powr_real_of_int' [of 2 "e + 1"] by simp
  show ?thesis
    using assms pos by (subst floor_log_eq_powr_iff) (simp_all add: a b)
qed

lemma quantum_exp_eq:
  assumes "2 powi e \<le> \<bar>x\<bar>" and "\<bar>x\<bar> < 2 powi (e + 1)" and "- 1022 \<le> e"
  shows "quantum_exp x = e - 52"
  using floor_log2_eq [OF assms(1,2)] assms(3) by (simp add: quantum_exp_def)

lemma to_double_eval:
  assumes "2 powi e \<le> \<bar>x\<bar>" and "\<bar>x\<bar> < 2 powi (e + 1)" and "- 1022 \<le> e"
    and "round_even (x / 2 powi (e - 52)) = m"
    and "\<bar>real_of_int m * 2 powi (e - 52)\<bar> < overflow_threshold"
  shows "to_double x = Num (of_int m * 2 powi (e - 52))"
proof -
  have "x \<noteq> 0"
    using assms(1) by (smt (verit) zero_less_power_int)
  with assms(4,5) quantum_exp_eq [OF assms(1-3)] show ?thesis
    by (simp add: to_double_def Let_def)
qed

text \<open>Every integer of magnitude at most two to the power 53 is a double.\<close>

lemma to_double_of_int:
  assumes "\<bar>n\<bar> \<le> 2 ^ 53"
  shows "to_double (of_int n) = Num (of_int n)"
proof (cases "n = 0")
  case True
  then show ?thesis by (simp add: to_double_def)
next
  case False
  define x where "x = real_of_int n"
  define e where "e = \<lfloor>log 2 \<bar>x\<bar>\<rfloor>"
  have x1: "1 \<le> \<bar>x\<bar>" using False by (simp add: x_def)
  have xle: "\<bar>x\<bar> \<le> 2 ^ 53" using assms unfolding x_def
    by (metis of_int_abs of_int_le_iff of_int_numeral of_int_power)
  have e0: "0 \<le> e" unfolding e_def using x1 by simp
  have "nat \<bar>n\<bar> \<le> 2 ^ 53" "0 < nat \<bar>n\<bar>"
    using assms False by simp_all
  then have "log 2 (real (nat \<bar>n\<bar>)) \<le> real 53"
    by (rule log2_of_power_le)
  moreover have "real (nat \<bar>n\<bar>) = \<bar>x\<bar>"
    by (simp add: x_def)
  ultimately have "log 2 \<bar>x\<bar> \<le> 53" by simp
  then have e53: "e \<le> 53" unfolding e_def by (simp add: floor_le_iff)
  have bounds: "2 powr (real_of_int e) \<le> \<bar>x\<bar>"
    using floor_log_eq_powr_iff [of "\<bar>x\<bar>" 2 e] x1 by (simp add: e_def)
  have q: "quantum_exp x = e - 52" using e0 by (simp add: quantum_exp_def e_def)
  have int: "\<exists>k. x / 2 powi (e - 52) = real_of_int k"
  proof (cases "e \<le> 52")
    case True
    then have "(2::real) powi (e - 52) = 1 / 2 ^ nat (52 - e)"
      by (simp add: power_int_def field_simps)
    then have "x / 2 powi (e - 52) = real_of_int (n * 2 ^ nat (52 - e))"
      by (simp add: x_def)
    then show ?thesis by blast
  next
    case False
    with e53 have e: "e = 53" by simp
    with bounds have "2 ^ 53 \<le> \<bar>x\<bar>" by (simp add: powr_numeral)
    with xle have "\<bar>x\<bar> = 2 ^ 53" by simp
    then have "\<bar>n\<bar> = 2 ^ 53" unfolding x_def
      by (metis of_int_abs of_int_eq_iff of_int_numeral of_int_power)
    then have "n = 2 ^ 53 \<or> n = - (2 ^ 53)" by linarith
    then have "x / 2 powi (e - 52) = real_of_int (n div 2)"
      unfolding e x_def by auto
    then show ?thesis by blast
  qed
  then obtain k where k: "x / 2 powi (e - 52) = real_of_int k" by blast
  then have r: "real_of_int (round_even (x / 2 powi (e - 52))) * 2 powi (e - 52) = x"
    by (simp add: round_even_of_int field_simps)
  have "\<bar>x\<bar> < overflow_threshold"
  proof -
    have "(2::real) ^ 53 < 2 ^ 1024" by (rule power_strict_increasing) simp_all
    with xle show ?thesis by (simp add: overflow_threshold_def)
  qed
  with r q x1 show ?thesis
    unfolding x_def [symmetric] by (auto simp: to_double_def Let_def)
qed

lemma below_overflow_threshold: "\<bar>x\<bar> \<le> 2 ^ 53 \<Longrightarrow> \<bar>x\<bar> < overflow_threshold"
proof -
  assume "\<bar>x\<bar> \<le> 2 ^ 53"
  moreover have "(2::real) ^ 53 < 2 ^ 1024" by (rule power_strict_increasing) simp_all
  ultimately show ?thesis by (simp add: overflow_threshold_def)
qed

lemma round_even_numeral: "round_even (numeral k) = numeral k"
  using round_even_of_int [of "numeral k"] by simp

lemma to_double_eval_small:
  assumes "2 powi e \<le> \<bar>x\<bar>" and "\<bar>x\<bar> < 2 powi (e + 1)" and "- 1022 \<le> e"
    and "round_even (x / 2 powi (e - 52)) = m"
    and "\<bar>real_of_int m * 2 powi (e - 52)\<bar> \<le> 2 ^ 53"
  shows "to_double x = Num (of_int m * 2 powi (e - 52))"
  using assms(1-4) below_overflow_threshold [OF assms(5)] by (rule to_double_eval)

lemma round_even_tie: "round_even (real_of_int f + 1 / 2) = (if even f then f else f + 1)"
proof -
  have "\<lfloor>real_of_int f + 1 / 2\<rfloor> = f" by linarith
  then show ?thesis by (simp add: round_even_def)
qed

lemma tenth_double: "to_double tenth = Num tenth"
proof -
  have "to_double tenth = Num (real_of_int 7205759403792794 * 2 powi (- 4 - 52))"
    by (rule to_double_eval_small) (simp_all add: tenth_def round_even_numeral)
  then show ?thesis by (simp add: tenth_def)
qed

lemma three_tenths: "to_double (tenth * 3) = Num (5404319552844596 / 2 ^ 54)"
proof -
  have "tenth * 3 / 2 powi (- 2 - 52) = real_of_int 5404319552844595 + 1 / 2"
    by (simp add: tenth_def)
  then have r: "round_even (tenth * 3 / 2 powi (- 2 - 52)) = 5404319552844596"
    by (simp only: round_even_tie) simp
  have "to_double (tenth * 3) = Num (real_of_int 5404319552844596 * 2 powi (- 2 - 52))"
  proof (rule to_double_eval_small)
    show "round_even (tenth * 3 / 2 powi (- 2 - 52)) = 5404319552844596" by (fact r)
  qed (simp_all add: tenth_def)
  then show ?thesis by simp
qed

lemma three_tenths_again: "to_double (5404319552844596 / 2 ^ 54) = Num (5404319552844596 / 2 ^ 54)"
proof -
  have "to_double (5404319552844596 / 2 ^ 54) = Num (real_of_int 5404319552844596 * 2 powi (- 2 - 52))"
    by (rule to_double_eval_small) (simp_all add: round_even_numeral)
  then show ?thesis by simp
qed

lemma quantity_plus_1_exact:
  assumes "\<bar>q\<bar> < 2 ^ 53"
  shows "quantity_plus_1 q = q + 1"
proof -
  from assms have a: "\<bar>q\<bar> \<le> 2 ^ 53" and b: "\<bar>q + 1\<bar> \<le> 2 ^ 53"
    by simp_all
  have "js_add (to_number q) (Num 1) = to_double (of_int (q + 1))"
    by (simp add: to_number_def to_double_of_int [OF a])
  also have "\<dots> = Num (of_int (q + 1))"
    by (rule to_double_of_int [OF b])
  finally show ?thesis
    by (simp add: quantity_plus_1_def)
qed



section \<open>Properties of the storage operations and of one add\<close>

lemma fold_max_ge: "(s::nat) \<le> fold max ids s"
  by (induction ids arbitrary: s) (auto intro: order_trans [OF max.cobounded2])

lemma fold_max_mem: "k \<in> set ids \<Longrightarrow> (k::nat) \<le> fold max ids s"
proof (induction ids arbitrary: s)
  case Nil
  then show ?case by simp
next
  case (Cons a ids)
  show ?case
  proof (cases "k = a")
    case True
    have "a \<le> max a s" by simp
    also have "\<dots> \<le> fold max ids (max a s)" by (rule fold_max_ge)
    finally show ?thesis using True by simp
  next
    case False
    with Cons show ?thesis by simp
  qed
qed

lemma next_id_fresh: "k \<in> set ids \<Longrightarrow> k < next_id s ids"
  by (simp add: next_id_def fold_max_mem less_Suc_eq_le)

lemma find_as_filter: "find P xs = (case filter P xs of [] \<Rightarrow> None | x # _ \<Rightarrow> Some x)"
  by (induction xs) auto

lemma CartItem_findOne_lines:
  "CartItem_findOne d cid tid = (case cart_lines d cid tid of [] \<Rightarrow> None | x # _ \<Rightarrow> Some x)"
  by (simp add: CartItem_findOne_def cart_lines_def find_as_filter)

lemma cart_lines_update:
  "cart_lines (CartItem_update d item q) cid tid =
     map (\<lambda>i. if item_id i = item_id item then i\<lparr>quantity := q\<rparr> else i) (cart_lines d cid tid)"
  by (simp add: cart_lines_def CartItem_update_def filter_map comp_def if_distrib cong: if_cong)

lemma cart_add_line_absent:
  assumes "cart_lines d (cart_id c) tid = []"
    and "c \<in> set (carts d)" and "tour_exists d tid"
  shows "snd (cart_add_line st d c tid) = Json 200 True Tour_added \<and>
         map quantity (cart_lines (fst (cart_add_line st d c tid)) (cart_id c) tid) = [1] \<and>
         carts (fst (cart_add_line st d c tid)) = carts d \<and>
         users (fst (cart_add_line st d c tid)) = users d \<and>
         tours (fst (cart_add_line st d c tid)) = tours d \<and>
         map CartId (cart_items (fst (cart_add_line st d c tid))) =
           map CartId (cart_items d) @ [cart_id c]"
proof -
  have "cart_add_line st d c tid =
     (d\<lparr>cart_items := cart_items d @
           [\<lparr>item_id = next_id (cart_items_seq d) (map item_id (cart_items d)),
             quantity = 1, CartId = cart_id c, TourId = tid\<rparr>],
        cart_items_seq := next_id (cart_items_seq d) (map item_id (cart_items d))\<rparr>,
      Json 200 True Tour_added)"
    using assms
    by (simp add: cart_add_line_def CartItem_findOne_lines CartItem_create_def
        tour_exists_def Let_def)
  moreover have "filter (\<lambda>i. CartId i = cart_id c \<and> TourId i = tid) (cart_items d) = []"
    using assms(1) by (simp add: cart_lines_def)
  ultimately show ?thesis
    by (simp add: cart_lines_def)
qed

lemma cart_add_line_present:
  assumes "map quantity (cart_lines d (cart_id c) tid) = [q]"
  shows "snd (cart_add_line st d c tid) = Json 200 True Tour_added \<and>
         map quantity (cart_lines (fst (cart_add_line st d c tid)) (cart_id c) tid) =
           [quantity_plus_1 q] \<and>
         carts (fst (cart_add_line st d c tid)) = carts d \<and>
         users (fst (cart_add_line st d c tid)) = users d \<and>
         tours (fst (cart_add_line st d c tid)) = tours d \<and>
         map CartId (cart_items (fst (cart_add_line st d c tid))) = map CartId (cart_items d)"
proof -
  from assms obtain item where item: "cart_lines d (cart_id c) tid = [item]" "quantity item = q"
    by auto
  then have "cart_add_line st d c tid =
      (CartItem_update d item (quantity_plus_1 q), Json 200 True Tour_added)"
    by (simp add: cart_add_line_def CartItem_findOne_lines)
  with item show ?thesis
    by (simp add: cart_lines_update) (simp add: CartItem_update_def comp_def if_distrib cong: if_cong)
qed


lemma find_append_None: "find P xs = None \<Longrightarrow> find P (xs @ ys) = find P ys"
  by (induction xs) (auto split: if_splits)


lemma find_in_set: "find P xs = Some x \<Longrightarrow> x \<in> set xs \<and> P x"
  by (induction xs) (auto split: if_splits)

lemma lines_reference_carts_iff:
  "lines_reference_carts d \<longleftrightarrow> set (map CartId (cart_items d)) \<subseteq> set (map cart_id (carts d))"
  by (auto simp: lines_reference_carts_def list_all_iff)

lemma cart_add_present:
  assumes "present d (sess_id su) tid q" and "lines_reference_carts d"
  shows "snd (cart_add st d (Some su) tid) = Json 200 True Tour_added \<and>
         present (fst (cart_add st d (Some su) tid)) (sess_id su) tid (quantity_plus_1 q) \<and>
         lines_reference_carts (fst (cart_add st d (Some su) tid)) \<and>
         users (fst (cart_add st d (Some su) tid)) = users d \<and>
         tours (fst (cart_add st d (Some su) tid)) = tours d"
proof -
  from assms(1) obtain c where c: "Cart_findOne d (sess_id su) = Some c"
    and q: "map quantity (cart_lines d (cart_id c) tid) = [q]"
    by (auto simp: present_def split: option.splits)
  have run: "cart_add st d (Some su) tid = cart_add_line st d c tid"
    by (simp add: cart_add_def requireAuth_def c)
  note step = cart_add_line_present [OF q, of st]
  have "Cart_findOne (fst (cart_add_line st d c tid)) (sess_id su) = Some c"
    using c step by (simp add: Cart_findOne_def)
  with step assms(2) show ?thesis
    by (simp add: run present_def lines_reference_carts_iff)
qed

lemma cart_add_absent:
  assumes "absent d (sess_id su) tid" and "lines_reference_carts d"
    and "user_exists d (sess_id su)" and "tour_exists d tid"
  shows "snd (cart_add st d (Some su) tid) = Json 200 True Tour_added \<and>
         present (fst (cart_add st d (Some su) tid)) (sess_id su) tid 1 \<and>
         lines_reference_carts (fst (cart_add st d (Some su) tid)) \<and>
         users (fst (cart_add st d (Some su) tid)) = users d \<and>
         tours (fst (cart_add st d (Some su) tid)) = tours d"
proof (cases "Cart_findOne d (sess_id su)")
  case (Some c)
  then have mem: "c \<in> set (carts d)"
    by (auto simp: Cart_findOne_def find_Some_iff)
  from Some assms(1) have none: "cart_lines d (cart_id c) tid = []"
    by (simp add: absent_def)
  have run: "cart_add st d (Some su) tid = cart_add_line st d c tid"
    by (simp add: cart_add_def requireAuth_def Some)
  note step = cart_add_line_absent [OF none mem assms(4), of st]
  have "Cart_findOne (fst (cart_add_line st d c tid)) (sess_id su) = Some c"
    using Some step by (simp add: Cart_findOne_def)
  with step assms(2) mem show ?thesis
    by (simp add: run present_def lines_reference_carts_iff)
next
  case None
  define c where "c = \<lparr>cart_id = next_id (carts_seq d) (map cart_id (carts d)), UserId = sess_id su\<rparr>"
  define d1 where "d1 = d\<lparr>carts := carts d @ [c], carts_seq := cart_id c\<rparr>"
  have create: "Cart_create st d (sess_id su) = Inr (d1, c)"
    using assms(3) by (simp add: Cart_create_def user_exists_def c_def d1_def Let_def)
  have run: "cart_add st d (Some su) tid = cart_add_line st d1 c tid"
    by (simp add: cart_add_def requireAuth_def None create)
  have fresh: "cart_id c \<notin> set (map cart_id (carts d))"
    using next_id_fresh [of "cart_id c" "map cart_id (carts d)" "carts_seq d"]
    by (auto simp: c_def)
  with assms(2) have "cart_id c \<notin> set (map CartId (cart_items d))"
    by (auto simp: lines_reference_carts_iff)
  then have none: "cart_lines d1 (cart_id c) tid = []"
    by (auto simp: cart_lines_def d1_def filter_empty_conv image_iff)
  have mem: "c \<in> set (carts d1)" by (simp add: d1_def)
  have tour: "tour_exists d1 tid" using assms(4) by (simp add: tour_exists_def d1_def)
  have found: "Cart_findOne d1 (sess_id su) = Some c"
    using None by (simp add: Cart_findOne_def find_append_None c_def d1_def)
  note step = cart_add_line_absent [OF none mem tour, of st]
  have "Cart_findOne (fst (cart_add_line st d1 c tid)) (sess_id su) = Some c"
    using found step by (simp add: Cart_findOne_def)
  moreover have "set (map CartId (cart_items d1)) \<subseteq> set (map cart_id (carts d1))"
    using assms(2) by (auto simp: lines_reference_carts_iff d1_def)
  moreover have "users d1 = users d" "tours d1 = tours d"
    by (simp_all add: d1_def)
  ultimately show ?thesis
    using step mem by (simp add: run present_def lines_reference_carts_iff)
qed



section \<open>Requests in flight: the serial schedule is the sequence of calls\<close>





section \<open>Requests in flight: every schedule\<close>

text \<open>
  With the unique key on the join table no step of a request, taken at any
  moment, leaves two lines for one cart and tour.
\<close>

lemma findOne_None_pair:
  "CartItem_findOne d cid tid = None \<Longrightarrow>
     (cid, tid) \<notin> set (map (\<lambda>i. (CartId i, TourId i)) (cart_items d))"
  by (auto simp: CartItem_findOne_def find_None_iff)

lemma pairs_CartItem_update:
  "map (\<lambda>i. (CartId i, TourId i)) (cart_items (CartItem_update d item q)) =
   map (\<lambda>i. (CartId i, TourId i)) (cart_items d)"
proof -
  have "map (\<lambda>i. (CartId i, TourId i))
          (map (\<lambda>i. if item_id i = item_id item then i\<lparr>quantity := q\<rparr> else i) xs) =
        map (\<lambda>i. (CartId i, TourId i)) xs" for xs
    by (induction xs) auto
  then show ?thesis
    by (simp add: CartItem_update_def)
qed




























section \<open>The cart view\<close>

lemma Cart_Tours_catalog: "set (map fst (Cart_Tours d c)) \<subseteq> set (tours d)"
  by (auto simp: Cart_Tours_def List.map_filter_def Tour_findByPk_def dest: find_in_set)

lemma map_filter_join:
  "map (\<lambda>(t, q). (tour_id t, q))
     (List.map_filter
        (\<lambda>i. map_option (\<lambda>t. (t, quantity i)) (Tour_findByPk d (TourId i))) xs)
   = map (\<lambda>i. (TourId i, quantity i)) (filter (\<lambda>i. tour_exists d (TourId i)) xs)"
proof (induction xs)
  case Nil
  then show ?case by (simp add: List.map_filter_simps)
next
  case (Cons i xs)
  show ?case
  proof (cases "Tour_findByPk d (TourId i)")
    case None
    then have "\<not> tour_exists d (TourId i)"
      by (auto simp: tour_exists_def Tour_findByPk_def find_None_iff)
    with None Cons show ?thesis by (simp add: List.map_filter_simps)
  next
    case (Some t)
    then have "t \<in> set (tours d)" and id: "tour_id t = TourId i"
      by (auto simp: Tour_findByPk_def dest: find_in_set)
    then have "tour_id t = TourId i" "tour_exists d (TourId i)"
      by (auto simp: tour_exists_def image_iff intro!: bexI [of _ t])
    with Some Cons show ?thesis by (simp add: List.map_filter_simps)
  qed
qed

lemma Cart_Tours_lines:
  "map (\<lambda>(t, q). (tour_id t, q)) (Cart_Tours d c) =
   map (\<lambda>i. (TourId i, quantity i))
     (filter (\<lambda>i. CartId i = cart_id c \<and> tour_exists d (TourId i)) (cart_items d))"
  by (simp add: Cart_Tours_def map_filter_join conj_commute)

lemma foldl_total_exact:
  assumes "\<forall>(t, q) \<in> set items. price t \<in> \<int> \<and> 0 \<le> price t \<and> 1 \<le> q \<and> q \<le> 2 ^ 53"
    and "0 \<le> a"
    and "real_of_int a + (\<Sum>(t, q)\<leftarrow>items. price t * real_of_int q) \<le> 2 ^ 53"
  shows "foldl (\<lambda>sum t. js_add sum (js_mul (to_double (price (fst t))) (to_number (snd t))))
           (Num (real_of_int a)) items =
         Num (real_of_int a + (\<Sum>(t, q)\<leftarrow>items. price t * real_of_int q))"
  using assms
proof (induction items arbitrary: a)
  case Nil
  then show ?case by simp
next
  case (Cons x items)
  obtain t q where x: "x = (t, q)" by (cases x)
  from Cons.prems(1) x obtain k where k: "price t = real_of_int k" "0 \<le> k"
    and q: "1 \<le> q" "q \<le> 2 ^ 53"
    by (auto simp: Ints_def)
  have rest: "0 \<le> (\<Sum>(t, q)\<leftarrow>items. price t * real_of_int q)"
    using Cons.prems(1) by (intro sum_list_nonneg) auto
  have kq: "real_of_int (k * q) = price t * real_of_int q" by (simp add: k)
  have kq0: "0 \<le> k * q" using k q by simp
  have total: "real_of_int (a + k * q) \<le> 2 ^ 53"
    using Cons.prems(3) rest by (simp add: x k)
  then have b: "a + k * q \<le> 2 ^ 53"
    by (metis of_int_le_iff of_int_numeral of_int_power)
  have "k \<le> k * q" using k q by (simp add: mult_le_cancel_left1)
  with b Cons.prems(2) kq0 have kb: "\<bar>k\<bar> \<le> 2 ^ 53" "\<bar>k * q\<bar> \<le> 2 ^ 53" "\<bar>a + k * q\<bar> \<le> 2 ^ 53"
    using k(2) by simp_all
  have qb: "\<bar>q\<bar> \<le> 2 ^ 53" using q by simp
  have "js_mul (to_double (price t)) (to_number q) = to_double (real_of_int (k * q))"
    by (simp add: k to_number_def to_double_of_int [OF kb(1)] to_double_of_int [OF qb])
  then have mul: "js_mul (to_double (price t)) (to_number q) = Num (real_of_int (k * q))"
    by (simp only: to_double_of_int [OF kb(2)])
  have add: "js_add (Num (real_of_int a)) (Num (real_of_int (k * q))) =
      Num (real_of_int (a + k * q))"
    using to_double_of_int [OF kb(3)] by simp
  let ?f = "\<lambda>sum t. js_add sum (js_mul (to_double (price (fst t))) (to_number (snd t)))"
  have IH: "foldl ?f (Num (real_of_int (a + k * q))) items =
        Num (real_of_int (a + k * q) + (\<Sum>(t, q)\<leftarrow>items. price t * real_of_int q))"
  proof (rule Cons.IH)
    show "\<forall>(t, q) \<in> set items. price t \<in> \<int> \<and> 0 \<le> price t \<and> 1 \<le> q \<and> q \<le> 2 ^ 53"
      using Cons.prems(1) by simp
    show "0 \<le> a + k * q" using Cons.prems(2) kq0 by simp
    show "real_of_int (a + k * q) + (\<Sum>(t, q)\<leftarrow>items. price t * real_of_int q) \<le> 2 ^ 53"
      using Cons.prems(3) by (simp add: x k(1) add.assoc)
  qed
  have "foldl ?f (Num (real_of_int a)) (x # items) =
      foldl ?f (js_add (Num (real_of_int a)) (js_mul (to_double (price t)) (to_number q))) items"
    by (simp add: x)
  also have "\<dots> = foldl ?f (Num (real_of_int (a + k * q))) items"
    by (simp only: mul add)
  also have "\<dots> = Num (real_of_int (a + k * q) + (\<Sum>(t, q)\<leftarrow>items. price t * real_of_int q))"
    by (fact IH)
  also have "\<dots> = Num (real_of_int a + (\<Sum>(t, q)\<leftarrow>x # items. price t * real_of_int q))"
    by (simp add: x k(1) add.assoc)
  finally show ?case .
qed

lemma cart_total_exact:
  assumes "\<forall>(t, q) \<in> set items. price t \<in> \<int> \<and> 0 \<le> price t \<and> 1 \<le> q \<and> q \<le> 2 ^ 53"
    and "(\<Sum>(t, q)\<leftarrow>items. price t * real_of_int q) \<le> 2 ^ 53"
  shows "cart_total items = Num (\<Sum>(t, q)\<leftarrow>items. price t * real_of_int q)"
  using foldl_total_exact [OF assms(1), of 0] assms(2) by (simp add: cart_total_def)

lemma cart_total_exact_any_order:
  assumes "mset rows = mset items"
    and "\<forall>(t, q) \<in> set items. price t \<in> \<int> \<and> 0 \<le> price t \<and> 1 \<le> q \<and> q \<le> 2 ^ 53"
    and "(\<Sum>(t, q)\<leftarrow>items. price t * real_of_int q) \<le> 2 ^ 53"
  shows "cart_total rows = Num (\<Sum>(t, q)\<leftarrow>items. price t * real_of_int q)"
proof -
  have same_set: "set rows = set items"
    using assms(1) by (rule mset_eq_setD)
  have "sum_mset (image_mset (\<lambda>(t, q). price t * real_of_int q) (mset rows)) =
      sum_mset (image_mset (\<lambda>(t, q). price t * real_of_int q) (mset items))"
    by (simp add: assms(1))
  then have same_sum: "(\<Sum>(t, q)\<leftarrow>rows. price t * real_of_int q) =
      (\<Sum>(t, q)\<leftarrow>items. price t * real_of_int q)"
    by (simp add: sum_mset_sum_list [symmetric])
  have "cart_total rows = Num (\<Sum>(t, q)\<leftarrow>rows. price t * real_of_int q)"
    using assms(2,3) by (intro cart_total_exact) (simp_all add: same_set same_sum)
  then show ?thesis
    by (simp add: same_sum)
qed

section \<open>Referential integrity is kept by the cart handlers\<close>

text \<open>
  An empty join table references existing carts, and neither cart handler
  breaks the property: the add handler inserts a line only for a cart it has
  found or created, and the remove handler only deletes lines.
\<close>

lemma lines_reference_carts_cart_add_line:
  assumes "lines_reference_carts d" and "c \<in> set (carts d)"
  shows "lines_reference_carts (fst (cart_add_line st d c tid))"
  using assms
  by (auto simp: cart_add_line_def CartItem_create_def CartItem_update_def Let_def
      lines_reference_carts_def list_all_iff split: option.splits if_splits)

lemma lines_reference_carts_cart_add:
  assumes "lines_reference_carts d"
  shows "lines_reference_carts (fst (cart_add st d sess tid))"
proof (cases sess)
  case None
  with assms show ?thesis by (simp add: cart_add_def requireAuth_def)
next
  case (Some su)
  show ?thesis
  proof (cases "Cart_findOne d (sess_id su)")
    case found: (Some c)
    then have "c \<in> set (carts d)"
      by (auto simp: Cart_findOne_def dest: find_in_set)
    with assms found Some show ?thesis
      by (simp add: cart_add_def requireAuth_def lines_reference_carts_cart_add_line)
  next
    case None
    show ?thesis
    proof (cases "Cart_create st d (sess_id su)")
      case (Inl e)
      with assms None Some show ?thesis by (simp add: cart_add_def requireAuth_def)
    next
      case (Inr r)
      obtain d1 c where r: "r = (d1, c)" by (cases r)
      with Inr have "c \<in> set (carts d1)" "lines_reference_carts d1"
        using assms
        by (auto simp: Cart_create_def Let_def lines_reference_carts_def list_all_iff
            split: if_splits)
      with Inr r None Some show ?thesis
        by (simp add: cart_add_def requireAuth_def lines_reference_carts_cart_add_line)
    qed
  qed
qed

lemma lines_reference_carts_cart_remove:
  "lines_reference_carts d \<Longrightarrow> lines_reference_carts (fst (cart_remove d sess itemId))"
  by (auto simp: cart_remove_def requireAuth_def CartItem_destroy_def
      lines_reference_carts_def list_all_iff split: option.splits)

text \<open>
  Where foreign keys are checked, the lines keep referencing existing tours;
  and the handlers, one request at a time, never make a second line for a
  cart and tour, whatever the setting.
\<close>

lemma lines_reference_tours_cart_add_line:
  assumes "foreignKeys st" and "lines_reference_tours d"
  shows "lines_reference_tours (fst (cart_add_line st d c tid))"
  using assms
  by (auto simp: cart_add_line_def CartItem_create_def CartItem_update_def Let_def
      lines_reference_tours_def tour_exists_def list_all_iff split: option.splits if_splits)

lemma lines_reference_tours_cart_add:
  assumes "foreignKeys st" and "lines_reference_tours d"
  shows "lines_reference_tours (fst (cart_add st d sess tid))"
proof -
  have "lines_reference_tours d1"
    if "Cart_create st d u = Inr (d1, c)" for u d1 c
    using that assms(2)
    by (auto simp: Cart_create_def Let_def lines_reference_tours_def tour_exists_def
        split: if_splits)
  with assms show ?thesis
    by (auto simp: cart_add_def requireAuth_def lines_reference_tours_cart_add_line
        split: option.splits sum.splits)
qed

lemma lines_reference_tours_cart_remove:
  "lines_reference_tours d \<Longrightarrow> lines_reference_tours (fst (cart_remove d sess itemId))"
  by (auto simp: cart_remove_def requireAuth_def CartItem_destroy_def
      lines_reference_tours_def tour_exists_def list_all_iff split: option.splits)

lemma unique_lines_cart_add_line:
  assumes "unique_lines d"
  shows "unique_lines (fst (cart_add_line st d c tid))"
proof (cases "CartItem_findOne d (cart_id c) tid")
  case (Some item)
  with assms show ?thesis
    by (simp add: cart_add_line_def unique_lines_def pairs_CartItem_update)
next
  case None
  show ?thesis
  proof (cases "CartItem_create st d (cart_id c) tid")
    case (Inl e)
    with None assms show ?thesis by (simp add: cart_add_line_def)
  next
    case (Inr d')
    then have "map (\<lambda>i. (CartId i, TourId i)) (cart_items d') =
        map (\<lambda>i. (CartId i, TourId i)) (cart_items d) @ [(cart_id c, tid)]"
      by (auto simp: CartItem_create_def Let_def split: if_splits)
    with findOne_None_pair [OF None] assms None Inr show ?thesis
      by (simp add: cart_add_line_def unique_lines_def)
  qed
qed

lemma unique_lines_cart_add:
  assumes "unique_lines d"
  shows "unique_lines (fst (cart_add st d sess tid))"
proof -
  have "unique_lines d1"
    if "Cart_create st d u = Inr (d1, c)" for u d1 c
    using that assms
    by (auto simp: Cart_create_def Let_def unique_lines_def split: if_splits)
  with assms show ?thesis
    by (auto simp: cart_add_def requireAuth_def unique_lines_cart_add_line
        split: option.splits sum.splits)
qed

lemma unique_lines_cart_remove:
  "unique_lines d \<Longrightarrow> unique_lines (fst (cart_remove d sess itemId))"
  by (auto simp: cart_remove_def requireAuth_def CartItem_destroy_def unique_lines_def
      distinct_map_filter split: option.splits)

section \<open>The claims about the cart\<close>

text \<open>
  C1. For a user and a tour of the store, from the state in which the user's
  cart has no line for the tour, two calls of the add handler one after the
  other both answer success; after the first the pair has exactly one line, of
  quantity 1, and after the second exactly one line, of quantity 2, never two
  lines. The store is one whose lines reference existing carts.
\<close>

theorem add_twice_one_line_quantity_two:
  assumes "user_exists d (sess_id su)" and "tour_exists d tid"
    and "lines_reference_carts d" and "absent d (sess_id su) tid"
  shows "snd (cart_add st d (Some su) tid) = Json 200 True Tour_added \<and>
         present (fst (cart_add st d (Some su) tid)) (sess_id su) tid 1 \<and>
         snd (cart_add st (fst (cart_add st d (Some su) tid)) (Some su) tid) =
           Json 200 True Tour_added \<and>
         present (fst (cart_add st (fst (cart_add st d (Some su) tid)) (Some su) tid))
           (sess_id su) tid 2"
proof -
  note first = cart_add_absent [OF assms(4) assms(3) assms(1) assms(2), of st]
  then have p1: "present (fst (cart_add st d (Some su) tid)) (sess_id su) tid 1"
    and r1: "lines_reference_carts (fst (cart_add st d (Some su) tid))"
    by simp_all
  have "quantity_plus_1 1 = 2"
    using quantity_plus_1_exact [of 1] by simp
  with cart_add_present [OF p1 r1, of st] first show ?thesis
    by simp
qed

theorem add_twice_one_line_quantity_two_witness:
  "user_exists shop (sess_id client_session) \<and> tour_exists shop 3 \<and>
   lines_reference_carts shop \<and> absent shop (sess_id client_session) 3 \<and>
   cart_items (fst (cart_add enforcing (fst (cart_add enforcing shop (Some client_session) 3))
       (Some client_session) 3)) =
     cart_items shop @ [\<lparr>item_id = 3, quantity = 2, CartId = 2, TourId = 3\<rparr>] \<and>
   present (fst (cart_add enforcing (fst (cart_add enforcing shop (Some client_session) 3))
       (Some client_session) 3)) (sess_id client_session) 3 2"
proof -
  have h: "user_exists shop (sess_id client_session)" "tour_exists shop 3"
    "lines_reference_carts shop" "absent shop (sess_id client_session) 3"
    by (simp_all add: shop_def client_session_def user_exists_def tour_exists_def
        lines_reference_carts_def absent_def Cart_findOne_def cart_lines_def)
  have run: "cart_items (fst (cart_add enforcing
         (fst (cart_add enforcing shop (Some client_session) 3)) (Some client_session) 3)) =
     cart_items shop @ [\<lparr>item_id = 3, quantity = 2, CartId = 2, TourId = 3\<rparr>]"
    by (simp add: shop_def client_session_def enforcing_def cart_add_def requireAuth_def
        Cart_findOne_def Cart_create_def cart_add_line_def CartItem_findOne_def
        CartItem_create_def CartItem_update_def next_id_def Let_def quantity_plus_1_exact)
  from add_twice_one_line_quantity_two [OF h, of enforcing] h run show ?thesis
    by simp
qed




text \<open>
  C3, as stated, fails. The second user owns no cart; line 1 belongs to the
  cart of the first user. The second user's request to remove line 1 answers
  success and the line is gone.
\<close>

theorem remove_deletes_another_users_line:
  "Cart_findOne shop (sess_id client_session) = None \<and>
   \<lparr>item_id = 1, quantity = 2, CartId = 1, TourId = 1\<rparr> \<in> set (cart_items shop) \<and>
   Cart_findOne shop (sess_id admin_session) = Some \<lparr>cart_id = 1, UserId = 1\<rparr> \<and>
   snd (cart_remove shop (Some client_session) 1) = Json 200 True Tour_removed \<and>
   cart_items (fst (cart_remove shop (Some client_session) 1)) =
     [\<lparr>item_id = 2, quantity = 1, CartId = 1, TourId = 2\<rparr>]"
  by (simp add: shop_def client_session_def admin_session_def Cart_findOne_def
      cart_remove_def requireAuth_def CartItem_destroy_def)

text \<open>
  C3, amended. The remove handler checks no ownership: for every authenticated
  user and every line id it answers success, the store has no line with that
  id afterwards, whichever cart the line belonged to, and every other line,
  every cart, user and tour is as before.
\<close>

theorem remove_checks_no_ownership:
  "snd (cart_remove d (Some su) itemId) = Json 200 True Tour_removed \<and>
   cart_items (fst (cart_remove d (Some su) itemId)) =
     filter (\<lambda>i. item_id i \<noteq> itemId) (cart_items d) \<and>
   itemId \<notin> set (map item_id (cart_items (fst (cart_remove d (Some su) itemId)))) \<and>
   carts (fst (cart_remove d (Some su) itemId)) = carts d \<and>
   users (fst (cart_remove d (Some su) itemId)) = users d \<and>
   tours (fst (cart_remove d (Some su) itemId)) = tours d"
  by (auto simp: cart_remove_def requireAuth_def CartItem_destroy_def)

theorem remove_checks_no_ownership_witness:
  "snd (cart_remove shop (Some client_session) 1) = Json 200 True Tour_removed \<and>
   cart_items (fst (cart_remove shop (Some client_session) 1)) =
     [\<lparr>item_id = 2, quantity = 1, CartId = 1, TourId = 2\<rparr>] \<and>
   carts (fst (cart_remove shop (Some client_session) 1)) = carts shop"
  using remove_checks_no_ownership [of shop client_session 1] by (simp add: shop_def)

text \<open>
  C4, as stated, fails. No tour has id 7 and the second user has no cart. The
  second user's request to add tour 7 creates a cart for that user before the
  storage layer rejects the line, and the answer is the handler's failure
  payload with status 500, the one it gives to any failure.
\<close>

theorem add_unknown_tour_creates_cart:
  "\<not> tour_exists shop 7 \<and>
   Cart_findOne shop (sess_id client_session) = None \<and>
   carts (fst (cart_add enforcing shop (Some client_session) 7)) =
     carts shop @ [\<lparr>cart_id = 2, UserId = 2\<rparr>] \<and>
   snd (cart_add enforcing shop (Some client_session) 7) = Json 500 False Cart_add_failed"
  by (simp add: shop_def client_session_def enforcing_def tour_exists_def
      cart_add_def requireAuth_def Cart_findOne_def Cart_create_def cart_add_line_def
      CartItem_findOne_def CartItem_create_def next_id_def Let_def)

text \<open>
  C4, amended. The add handler does not look the tour up; the line's foreign
  key does. For every user of the store and every tour id that is not in the
  catalog, in a store whose lines reference existing tours and whose storage
  layer checks foreign keys: the handler first gets or creates the user's
  cart, so that a cart is created when the user has none; the insert of the
  line is rejected; the handler answers its failure payload (status 500, the
  same for every failure, no kind for a tour that is not found); and no cart
  line is created or changed.
\<close>

theorem add_unknown_tour_rejected_by_storage:
  assumes "foreignKeys st" and "\<not> tour_exists d tid"
    and "lines_reference_tours d" and "user_exists d (sess_id su)"
  shows "snd (cart_add st d (Some su) tid) = Json 500 False Cart_add_failed \<and>
         cart_items (fst (cart_add st d (Some su) tid)) = cart_items d \<and>
         users (fst (cart_add st d (Some su) tid)) = users d \<and>
         tours (fst (cart_add st d (Some su) tid)) = tours d \<and>
         carts (fst (cart_add st d (Some su) tid)) =
           (case Cart_findOne d (sess_id su) of
              Some c \<Rightarrow> carts d
            | None \<Rightarrow>
                carts d @ [\<lparr>cart_id = next_id (carts_seq d) (map cart_id (carts d)),
                             UserId = sess_id su\<rparr>])"
proof -
  have no_line: "CartItem_findOne d' cid tid = None" if "cart_items d' = cart_items d" for d' cid
    using assms(2,3) that
    by (auto simp: CartItem_findOne_def find_None_iff lines_reference_tours_def list_all_iff)
  have line: "cart_add_line st d' c tid = (d', Json 500 False Cart_add_failed)"
    if "cart_items d' = cart_items d" "tours d' = tours d" for d' c
    using assms(1,2) no_line [OF that(1)] that(2)
    by (simp add: cart_add_line_def CartItem_create_def tour_exists_def)
  show ?thesis
  proof (cases "Cart_findOne d (sess_id su)")
    case (Some c)
    with line [of d c] show ?thesis
      by (simp add: cart_add_def requireAuth_def)
  next
    case None
    define c where
      "c = \<lparr>cart_id = next_id (carts_seq d) (map cart_id (carts d)), UserId = sess_id su\<rparr>"
    define d1 where "d1 = d\<lparr>carts := carts d @ [c], carts_seq := cart_id c\<rparr>"
    have create: "Cart_create st d (sess_id su) = Inr (d1, c)"
      using assms(4) by (simp add: Cart_create_def user_exists_def c_def d1_def Let_def)
    have "cart_add st d (Some su) tid = cart_add_line st d1 c tid"
      by (simp add: cart_add_def requireAuth_def None create)
    with line [of d1 c] None show ?thesis
      by (simp add: d1_def c_def)
  qed
qed

theorem add_unknown_tour_rejected_by_storage_witness:
  "foreignKeys enforcing \<and> \<not> tour_exists shop 7 \<and> lines_reference_tours shop \<and>
   user_exists shop (sess_id client_session) \<and> user_exists shop (sess_id admin_session) \<and>
   cart_add enforcing shop (Some admin_session) 7 = (shop, Json 500 False Cart_add_failed) \<and>
   snd (cart_add enforcing shop (Some client_session) 7) = Json 500 False Cart_add_failed \<and>
   cart_items (fst (cart_add enforcing shop (Some client_session) 7)) = cart_items shop \<and>
   carts (fst (cart_add enforcing shop (Some client_session) 7)) =
     carts shop @ [\<lparr>cart_id = 2, UserId = 2\<rparr>]"
proof -
  have h: "foreignKeys enforcing" "\<not> tour_exists shop 7" "lines_reference_tours shop"
    by (simp_all add: enforcing_def shop_def tour_exists_def lines_reference_tours_def)
  have u: "user_exists shop (sess_id client_session)" "user_exists shop (sess_id admin_session)"
    by (simp_all add: shop_def client_session_def admin_session_def user_exists_def)
  have c: "Cart_findOne shop (sess_id client_session) = None"
    "Cart_findOne shop (sess_id admin_session) = Some \<lparr>cart_id = 1, UserId = 1\<rparr>"
    "next_id (carts_seq shop) (map cart_id (carts shop)) = 2" "sess_id client_session = 2"
    by (simp_all add: shop_def client_session_def admin_session_def Cart_findOne_def next_id_def)
  have same: "cart_add enforcing shop (Some admin_session) 7 =
      (shop, Json 500 False Cart_add_failed)"
    by (simp add: shop_def admin_session_def enforcing_def cart_add_def requireAuth_def
        Cart_findOne_def cart_add_line_def CartItem_findOne_def CartItem_create_def)
  from add_unknown_tour_rejected_by_storage [OF h u(1)]
    add_unknown_tour_rejected_by_storage [OF h u(2)] h u c same
  show ?thesis by simp
qed

text \<open>
  C5, as stated, fails. One tenth, as a double, is the price of the tour in
  \<open>tenth_shop\<close>, and the first user's cart holds three of it. The view renders
  the total 0.30000000000000004, the double next above three times the price:
  the product is not a double and is rounded.
\<close>

theorem cart_total_is_rounded:
  "to_double tenth = Num tenth \<and>
   cart_get tenth_shop (Some admin_session) =
     Render 200 (Cart_page
       [(\<lparr>tour_id = 1, tour_name = ''A'', price = tenth, duration = 3\<rparr>, 3)]
       (Num (5404319552844596 / 2 ^ 54))) \<and>
   (5404319552844596 / 2 ^ 54 :: real) \<noteq> tenth * 3"
proof -
  have c: "Cart_findOne tenth_shop (sess_id admin_session) = Some \<lparr>cart_id = 1, UserId = 1\<rparr>"
    by (simp add: Cart_findOne_def tenth_shop_def shop_def admin_session_def)
  have t: "Cart_Tours tenth_shop \<lparr>cart_id = 1, UserId = 1\<rparr> =
      [(\<lparr>tour_id = 1, tour_name = ''A'', price = tenth, duration = 3\<rparr>, 3)]"
    by (simp add: Cart_Tours_def tenth_shop_def shop_def Tour_findByPk_def
        List.map_filter_simps)
  have three: "to_number 3 = Num 3"
    using to_double_of_int [of 3] by (simp add: to_number_def)
  have "cart_total [(\<lparr>tour_id = 1, tour_name = ''A'', price = tenth, duration = 3\<rparr>, 3)] =
      js_add (Num 0) (js_mul (to_double tenth) (to_number 3))"
    by (simp add: cart_total_def)
  also have "\<dots> = js_add (Num 0) (to_double (tenth * 3))"
    by (simp only: tenth_double three js_mul.simps)
  also have "\<dots> = to_double (0 + 5404319552844596 / 2 ^ 54)"
    by (simp only: three_tenths js_add.simps)
  also have "\<dots> = Num (5404319552844596 / 2 ^ 54)"
    by (simp only: add_0 three_tenths_again)
  finally have total:
    "cart_total [(\<lparr>tour_id = 1, tour_name = ''A'', price = tenth, duration = 3\<rparr>, 3)] =
      Num (5404319552844596 / 2 ^ 54)" .
  have view: "cart_get tenth_shop (Some admin_session) =
     Render 200 (Cart_page
       [(\<lparr>tour_id = 1, tour_name = ''A'', price = tenth, duration = 3\<rparr>, 3)]
       (Num (5404319552844596 / 2 ^ 54)))"
    by (simp only: cart_get_def requireAuth_def option.case sum.case c t total)
  have differ: "(5404319552844596 / 2 ^ 54 :: real) \<noteq> tenth * 3"
    by (simp add: tenth_def)
  from tenth_double view differ show ?thesis
    by (intro conjI)
qed

text \<open>
  C5, amended. For an authenticated user the cart view never answers an error.
  With no cart it renders the empty list and total 0. With a cart it renders
  the cart's lines whose tour is in the catalog, each with the catalog's row
  at the time of the view and the line's quantity, and as total the sum of
  price times quantity over these lines as JavaScript computes it: from 0,
  row by row, every product and every partial sum rounded to a double. The
  total is the exact sum, in whatever order the rows are summed, whenever the
  prices are non-negative integers, the quantities lie between 1 and two to
  the power 53, and the exact sum is at most two to the power 53: lines (price
  100, quantity 2) and (price 50, quantity 1) give total 250.
\<close>

theorem cart_get_view:
  "(Cart_findOne d (sess_id su) = None \<longrightarrow>
      cart_get d (Some su) = Render 200 (Cart_page [] (Num 0))) \<and>
   (\<forall>c. Cart_findOne d (sess_id su) = Some c \<longrightarrow>
      cart_get d (Some su) =
        Render 200 (Cart_page (Cart_Tours d c) (cart_total (Cart_Tours d c))) \<and>
      set (map fst (Cart_Tours d c)) \<subseteq> set (tours d) \<and>
      map (\<lambda>(t, q). (tour_id t, q)) (Cart_Tours d c) =
        map (\<lambda>i. (TourId i, quantity i))
          (filter (\<lambda>i. CartId i = cart_id c \<and> tour_exists d (TourId i)) (cart_items d)) \<and>
      ((\<forall>(t, q) \<in> set (Cart_Tours d c).
          price t \<in> \<int> \<and> 0 \<le> price t \<and> 1 \<le> q \<and> q \<le> 2 ^ 53) \<and>
       (\<Sum>(t, q)\<leftarrow>Cart_Tours d c. price t * real_of_int q) \<le> 2 ^ 53 \<longrightarrow>
       (\<forall>rows. mset rows = mset (Cart_Tours d c) \<longrightarrow>
          cart_total rows = Num (\<Sum>(t, q)\<leftarrow>Cart_Tours d c. price t * real_of_int q))))"
  using Cart_Tours_catalog Cart_Tours_lines cart_total_exact_any_order
  by (simp add: cart_get_def requireAuth_def)

theorem cart_get_view_witness:
  "Cart_findOne shop (sess_id client_session) = None \<and>
   cart_get shop (Some client_session) = Render 200 (Cart_page [] (Num 0)) \<and>
   Cart_findOne shop (sess_id admin_session) = Some \<lparr>cart_id = 1, UserId = 1\<rparr> \<and>
   cart_get shop (Some admin_session) =
     Render 200 (Cart_page
       [(\<lparr>tour_id = 1, tour_name = ''A'', price = 100, duration = 3\<rparr>, 2),
        (\<lparr>tour_id = 2, tour_name = ''B'', price = 50, duration = 7\<rparr>, 1)] (Num 250))"
proof -
  have a: "Cart_findOne shop (sess_id client_session) = None"
    by (simp add: Cart_findOne_def shop_def client_session_def)
  have b: "Cart_findOne shop (sess_id admin_session) = Some \<lparr>cart_id = 1, UserId = 1\<rparr>"
    by (simp add: Cart_findOne_def shop_def admin_session_def)
  have t: "Cart_Tours shop \<lparr>cart_id = 1, UserId = 1\<rparr> =
       [(\<lparr>tour_id = 1, tour_name = ''A'', price = 100, duration = 3\<rparr>, 2),
        (\<lparr>tour_id = 2, tour_name = ''B'', price = 50, duration = 7\<rparr>, 1)]"
    by (simp add: Cart_Tours_def shop_def Tour_findByPk_def List.map_filter_simps)
  have exact: "cart_total
       [(\<lparr>tour_id = 1, tour_name = ''A'', price = 100, duration = 3\<rparr>, 2),
        (\<lparr>tour_id = 2, tour_name = ''B'', price = 50, duration = 7\<rparr>, 1)] = Num 250"
    using cart_get_view [of shop admin_session] b t by simp
  from cart_get_view [of shop client_session] cart_get_view [of shop admin_session] a b t exact
  show ?thesis by simp
qed

text \<open>
  C9, as stated, fails. Without a session user the add and the remove handler
  answer a redirect to the login page, not a JSON payload.
\<close>

theorem unauthenticated_post_is_redirected:
  "\<not> is_Json (snd (cart_add enforcing shop None 1)) \<and>
   \<not> is_Json (snd (cart_add permissive shop None 1)) \<and>
   \<not> is_Json (snd (cart_remove shop None 1)) \<and>
   snd (cart_add enforcing shop None 1) = Redirect ''/login'' \<and>
   snd (cart_remove shop None 1) = Redirect ''/login''"
  by (simp add: cart_add_def cart_remove_def requireAuth_def)

text \<open>
  C9, amended. For every request without a session user, the cart view, the
  add handler and the remove handler each answer a redirect to the login page,
  and the store is left as it was.
\<close>

theorem unauthenticated_cart_requests_redirect:
  "cart_get d None = Redirect ''/login'' \<and>
   cart_add st d None tourId = (d, Redirect ''/login'') \<and>
   cart_remove d None itemId = (d, Redirect ''/login'')"
  by (simp add: cart_get_def cart_add_def cart_remove_def requireAuth_def)

theorem unauthenticated_cart_requests_redirect_witness:
  "cart_get shop None = Redirect ''/login'' \<and>
   cart_add enforcing shop None 1 = (shop, Redirect ''/login'') \<and>
   cart_remove shop None 1 = (shop, Redirect ''/login'')"
  using unauthenticated_cart_requests_redirect [of shop enforcing 1 1] by simp

section \<open>The claims about identity\<close>

lemma find_Some_mem_map: "find (\<lambda>u. f u = k) xs = Some u \<Longrightarrow> k \<in> set (map f xs)"
  by (induction xs) (auto split: if_splits)

lemma user_update_passwords:
  assumes "user_update bc salt d loaded name pw = Inr d'"
  shows "map password (users d') =
     map (\<lambda>r. if user_id r = user_id loaded \<and>
                   (case pw of None \<Rightarrow> False | Some p \<Rightarrow> p \<noteq> password loaded)
                then bcrypt_hash bc (the pw) salt else password r) (users d)"
  using assms
  by (auto simp: user_update_def beforeUpdate_def Let_def split: if_splits option.splits)

lemma login_with_password_uniform:
  assumes "User_findOne d known = Some u" and "\<not> bcrypt_compare bc wrong (password u)"
    and "User_findOne d unknown = None"
  shows "login bc d sess known (Some wrong) = (sess, Render 400 (Login_page Bad_credentials)) \<and>
         login bc d sess unknown pw = (sess, Render 400 (Login_page Bad_credentials))"
  using assms by (simp add: login_def)

text \<open>
  C6 holds for a password that is sent and wrong (the lemma above) and fails
  for a request that sends none. For every store, a login with the username of
  a stored user and no password string ends in the handler's \<^verbatim>\<open>catch\<close> and is
  answered status 500 with the error page, while the same request with a
  username that no stored user has is answered status 400 with the login page:
  the two responses differ, and tell which usernames exist.
\<close>

theorem login_without_password_reveals_username:
  assumes "User_findOne d known = Some u" and "User_findOne d unknown = None"
  shows "login bc d sess known None = (sess, Render 500 (Error_page Login_failed)) \<and>
         login bc d sess unknown None = (sess, Render 400 (Login_page Bad_credentials)) \<and>
         login bc d sess known None \<noteq> login bc d sess unknown None"
  using assms by (simp add: login_def)

theorem login_without_password_reveals_username_witness:
  "User_findOne shop ''admin'' =
     Some \<lparr>user_id = 1, username = ''admin'', password = ''h:adminpass'', role = ''admin''\<rparr> \<and>
   User_findOne shop ''nobody'' = None \<and>
   login plain_bcrypt shop None ''admin'' None = (None, Render 500 (Error_page Login_failed)) \<and>
   login plain_bcrypt shop None ''nobody'' None =
     (None, Render 400 (Login_page Bad_credentials)) \<and>
   login plain_bcrypt shop None ''admin'' (Some ''guess'') =
     (None, Render 400 (Login_page Bad_credentials)) \<and>
   login plain_bcrypt shop None ''admin'' (Some ''adminpass'') =
     (Some admin_session, Redirect ''/'')"
proof -
  have h: "User_findOne shop ''admin'' =
      Some \<lparr>user_id = 1, username = ''admin'', password = ''h:adminpass'', role = ''admin''\<rparr>"
    "User_findOne shop ''nobody'' = None"
    by (simp_all add: User_findOne_def shop_def)
  have with_password:
    "login plain_bcrypt shop None ''admin'' (Some ''guess'') =
       (None, Render 400 (Login_page Bad_credentials))"
    "login plain_bcrypt shop None ''admin'' (Some ''adminpass'') =
       (Some admin_session, Redirect ''/'')"
    by (simp_all add: login_def h plain_bcrypt_def admin_session_def)
  from login_without_password_reveals_username [OF h, of plain_bcrypt None] h with_password
  show ?thesis by simp
qed

text \<open>
  C7, as stated, fails. A registration with the username of a stored user and
  a password is answered status 500 with the error page and the registration
  message, the answer of the handler's \<^verbatim>\<open>catch\<close> to whatever \<^verbatim>\<open>User.create\<close>
  throws; with an empty password it is answered status 400 with the message
  that both fields are required, exactly as for a username that is free. No
  answer of the handler names the username as taken.
\<close>

theorem duplicate_username_gets_general_error:
  "User_findOne shop ''admin'' =
     Some \<lparr>user_id = 1, username = ''admin'', password = ''h:adminpass'', role = ''admin''\<rparr> \<and>
   User_findOne shop ''nobody'' = None \<and>
   register plain_bcrypt ''s'' shop ''admin'' ''other'' =
     (shop, Render 500 (Error_page Registration_failed)) \<and>
   register plain_bcrypt ''s'' shop ''admin'' [] =
     (shop, Render 400 (Register_page Credentials_required)) \<and>
   register plain_bcrypt ''s'' shop ''nobody'' [] =
     (shop, Render 400 (Register_page Credentials_required))"
  by (simp add: register_def User_create_def beforeCreate_def User_findOne_def shop_def
      plain_bcrypt_def Let_def)

text \<open>
  C7, amended. A registration with the username of an existing user fails and
  changes nothing in the store, so that the user's stored hash is as before.
  The failure is no kind of its own for a username that is taken: with a
  non-empty username and password it is the handler's registration error
  (status 500, the error page), which answers every failure of
  \<^verbatim>\<open>User.create\<close>; with an empty password it is the rejection of the input
  (status 400).
\<close>

theorem register_duplicate_username:
  assumes "User_findOne d name = Some u"
  shows "fst (register bc salt d name pw) = d \<and>
         User_findOne (fst (register bc salt d name pw)) name = Some u \<and>
         snd (register bc salt d name pw) =
           (if name \<noteq> [] \<and> pw \<noteq> [] then Render 500 (Error_page Registration_failed)
            else Render 400 (Register_page Credentials_required))"
proof -
  from assms have "name \<in> set (map username (users d))"
    unfolding User_findOne_def by (rule find_Some_mem_map)
  then have "User_create bc salt d name pw = Inl UniqueConstraintError"
    by (simp add: User_create_def beforeCreate_def Let_def)
  then have run: "register bc salt d name pw =
      (d, if name \<noteq> [] \<and> pw \<noteq> [] then Render 500 (Error_page Registration_failed)
          else Render 400 (Register_page Credentials_required))"
    by (simp add: register_def)
  show ?thesis
    unfolding run using assms by simp
qed

theorem register_duplicate_username_witness:
  "User_findOne shop ''admin'' = Some \<lparr>user_id = 1, username = ''admin'', password = ''h:adminpass'', role = ''admin''\<rparr> \<and>
   register plain_bcrypt ''s'' shop ''admin'' ''other'' = (shop, Render 500 (Error_page Registration_failed)) \<and>
   users (fst (register plain_bcrypt ''s'' shop ''carol'' ''pw'')) =
     users shop @ [\<lparr>user_id = 3, username = ''carol'', password = ''h:pw'', role = ''client''\<rparr>] \<and>
   snd (register plain_bcrypt ''s'' shop ''carol'' ''pw'') = Redirect ''/login''"
proof -
  have h: "User_findOne shop ''admin'' = Some \<lparr>user_id = 1, username = ''admin'', password = ''h:adminpass'', role = ''admin''\<rparr>"
    by (simp add: User_findOne_def shop_def)
  have new: "users (fst (register plain_bcrypt ''s'' shop ''carol'' ''pw'')) =
     users shop @ [\<lparr>user_id = 3, username = ''carol'', password = ''h:pw'', role = ''client''\<rparr>]"
    "snd (register plain_bcrypt ''s'' shop ''carol'' ''pw'') = Redirect ''/login''"
    by (simp_all add: register_def User_create_def beforeCreate_def shop_def plain_bcrypt_def
       next_id_def Let_def)
  from register_duplicate_username [OF h, of plain_bcrypt "''s''" "''other''"] h new
  show ?thesis by (simp add: prod_eq_iff)
qed

text \<open>
  C8. For every update of a loaded user that is written to the store: if the
  update sets a password that differs from the loaded one, the value stored
  for that user is the hash of the new password, and the hashes of all other
  users are as before; if the update sets no password, or sets the value that
  was loaded, every stored hash is exactly as before. For the profile route,
  the only caller: a request with no new password leaves every stored hash as
  it was, and an accepted request with a new password stores its hash.
\<close>

theorem password_rehashed_or_untouched:
  "(\<forall>d'. user_update bc salt d loaded name pw = Inr d' \<longrightarrow>
      (\<forall>p. pw = Some p \<and> p \<noteq> password loaded \<longrightarrow>
         map password (users d') =
           map (\<lambda>r. if user_id r = user_id loaded then bcrypt_hash bc p salt else password r)
             (users d)) \<and>
      (pw = None \<or> pw = Some (password loaded) \<longrightarrow>
         map password (users d') = map password (users d))) \<and>
   (newPassword = [] \<longrightarrow>
      map password (users (fst (profile_update bc salt d sess name currentPassword newPassword))) =
      map password (users d)) \<and>
   (\<forall>su u. sess = Some su \<and> User_findByPk d (sess_id su) = Some u \<and>
      newPassword \<noteq> [] \<and> newPassword \<noteq> password u \<and>
      snd (profile_update bc salt d sess name currentPassword newPassword) = Redirect ''/profile'' \<longrightarrow>
      map password (users (fst (profile_update bc salt d sess name currentPassword newPassword))) =
        map (\<lambda>r. if user_id r = user_id u then bcrypt_hash bc newPassword salt else password r)
          (users d))"
proof (intro conjI allI impI)
  fix d' p
  assume "user_update bc salt d loaded name pw = Inr d'" and "pw = Some p \<and> p \<noteq> password loaded"
  then show "map password (users d') =
      map (\<lambda>r. if user_id r = user_id loaded then bcrypt_hash bc p salt else password r) (users d)"
    using user_update_passwords [of bc salt d loaded name pw d'] by simp
next
  fix d'
  assume "user_update bc salt d loaded name pw = Inr d'" and "pw = None \<or> pw = Some (password loaded)"
  then show "map password (users d') = map password (users d)"
    using user_update_passwords [of bc salt d loaded name pw d'] by auto
next
  assume empty: "newPassword = []"
  show "map password (users (fst (profile_update bc salt d sess name currentPassword newPassword))) =
      map password (users d)"
  proof (cases "\<exists>su u d'. sess = Some su \<and> User_findByPk d (sess_id su) = Some u \<and>
      user_update bc salt d u name None = Inr d'")
    case True
    then obtain su u d' where *: "sess = Some su" "User_findByPk d (sess_id su) = Some u"
      "user_update bc salt d u name None = Inr d'" by blast
    then have "fst (profile_update bc salt d sess name currentPassword newPassword) = d'"
      by (simp add: profile_update_def requireAuth_def empty)
    with user_update_passwords [OF *(3)] show ?thesis by simp
  next
    case False
    then have "fst (profile_update bc salt d sess name currentPassword newPassword) = d"
      by (auto simp: profile_update_def requireAuth_def empty split: option.splits sum.splits)
    then show ?thesis by simp
  qed
next
  fix su u
  assume *: "sess = Some su \<and> User_findByPk d (sess_id su) = Some u \<and>
      newPassword \<noteq> [] \<and> newPassword \<noteq> password u \<and>
      snd (profile_update bc salt d sess name currentPassword newPassword) = Redirect ''/profile''"
  then obtain d' where d': "user_update bc salt d u name (Some newPassword) = Inr d'"
    and run: "fst (profile_update bc salt d sess name currentPassword newPassword) = d'"
    by (auto simp: profile_update_def requireAuth_def split: if_splits sum.splits)
  from user_update_passwords [OF d'] * run
  show "map password (users (fst (profile_update bc salt d sess name currentPassword newPassword))) =
        map (\<lambda>r. if user_id r = user_id u then bcrypt_hash bc newPassword salt else password r)
          (users d)"
    by simp
qed

theorem password_rehashed_or_untouched_witness:
  "profile_update plain_bcrypt ''s'' shop (Some client_session) ''bob'' [] [] =
     (shop\<lparr>users :=
        [\<lparr>user_id = 1, username = ''admin'', password = ''h:adminpass'', role = ''admin''\<rparr>,
         \<lparr>user_id = 2, username = ''bob'', password = ''h:clientpass'', role = ''client''\<rparr>]\<rparr>,
      Redirect ''/profile'') \<and>
   map password (users (fst (profile_update plain_bcrypt ''s'' shop (Some client_session)
       ''bob'' [] []))) = map password (users shop) \<and>
   snd (profile_update plain_bcrypt ''s'' shop (Some client_session)
       ''client'' ''clientpass'' ''new'') = Redirect ''/profile'' \<and>
   map password (users (fst (profile_update plain_bcrypt ''s'' shop (Some client_session)
       ''client'' ''clientpass'' ''new''))) = [''h:adminpass'', ''h:new'']"
proof -
  have l: "User_findByPk shop (sess_id client_session) =
      Some \<lparr>user_id = 2, username = ''client'', password = ''h:clientpass'', role = ''client''\<rparr>"
    by (simp add: User_findByPk_def shop_def client_session_def)
  have a: "profile_update plain_bcrypt ''s'' shop (Some client_session) ''bob'' [] [] =
     (shop\<lparr>users :=
        [\<lparr>user_id = 1, username = ''admin'', password = ''h:adminpass'', role = ''admin''\<rparr>,
         \<lparr>user_id = 2, username = ''bob'', password = ''h:clientpass'', role = ''client''\<rparr>]\<rparr>,
      Redirect ''/profile'')"
    by (simp add: profile_update_def requireAuth_def l user_update_def beforeUpdate_def Let_def)
      (simp add: shop_def)
  have b: "snd (profile_update plain_bcrypt ''s'' shop (Some client_session)
       ''client'' ''clientpass'' ''new'') = Redirect ''/profile''"
    by (simp add: profile_update_def requireAuth_def l user_update_def beforeUpdate_def Let_def
        plain_bcrypt_def)
  have c: "map (\<lambda>r. if user_id r = 2 then bcrypt_hash plain_bcrypt ''new'' ''s''
                 else password r) (users shop) = [''h:adminpass'', ''h:new'']"
    by (simp add: shop_def plain_bcrypt_def)
  from password_rehashed_or_untouched [of plain_bcrypt "''s''" shop
      "\<lparr>user_id = 2, username = ''client'', password = ''h:clientpass'', role = ''client''\<rparr>"
      "''bob''" None "[]" "Some client_session" "[]"]
    password_rehashed_or_untouched [of plain_bcrypt "''s''" shop
      "\<lparr>user_id = 2, username = ''client'', password = ''h:clientpass'', role = ''client''\<rparr>"
      "''client''" "Some ''new''" "''new''" "Some client_session" "''clientpass''"]
    a b c l
  show ?thesis
    by simp
qed

text \<open>
  C10. For an authenticated user of the store who submits a profile update
  with a non-empty new password: when the current password is empty or does
  not match the stored hash, the request is answered with status 400, the
  profile page and the message for a wrong current password, and the store is
  unchanged; hence the users table changes only when the current password
  was supplied and matches.
\<close>

theorem profile_password_needs_current:
  assumes "User_findByPk d (sess_id su) = Some u" and "newPassword \<noteq> []"
  shows "(currentPassword = [] \<or> \<not> bcrypt_compare bc currentPassword (password u) \<longrightarrow>
            profile_update bc salt d (Some su) name currentPassword newPassword =
              (d, Render 400 (Profile_page (Some u) Wrong_current_password))) \<and>
         (users (fst (profile_update bc salt d (Some su) name currentPassword newPassword)) \<noteq>
            users d \<longrightarrow>
            currentPassword \<noteq> [] \<and> bcrypt_compare bc currentPassword (password u))"
  using assms
  by (auto simp: profile_update_def requireAuth_def)

theorem profile_password_needs_current_witness:
  "User_findByPk shop (sess_id client_session) =
      Some \<lparr>user_id = 2, username = ''client'', password = ''h:clientpass'', role = ''client''\<rparr> \<and>
   profile_update plain_bcrypt ''s'' shop (Some client_session) ''client'' ''guess'' ''new'' =
     (shop, Render 400 (Profile_page
        (Some \<lparr>user_id = 2, username = ''client'', password = ''h:clientpass'', role = ''client''\<rparr>)
        Wrong_current_password)) \<and>
   profile_update plain_bcrypt ''s'' shop (Some client_session) ''client'' [] ''new'' =
     (shop, Render 400 (Profile_page
        (Some \<lparr>user_id = 2, username = ''client'', password = ''h:clientpass'', role = ''client''\<rparr>)
        Wrong_current_password))"
proof -
  have l: "User_findByPk shop (sess_id client_session) =
      Some \<lparr>user_id = 2, username = ''client'', password = ''h:clientpass'', role = ''client''\<rparr>"
    by (simp add: User_findByPk_def shop_def client_session_def)
  have n: "''new'' \<noteq> []" by simp
  from profile_password_needs_current [OF l n, of "''guess''" plain_bcrypt "''s''" "''client''"]
    profile_password_needs_current [OF l n, of "[]" plain_bcrypt "''s''" "''client''"] l
  show ?thesis
    by (simp add: plain_bcrypt_def)
qed

end
